theory Spec2Isabelle
  imports Complex_Main
begin

section \<open>Python strings\<close>

text \<open>
  A Python \<^verbatim>\<open>str\<close> is a sequence of Unicode code points, so it is modelled as a list
  of natural numbers. Literals of \<^verbatim>\<open>app.py\<close> that are plain ASCII are written with
  \<open>lit\<close>; the few non-ASCII characters of the file are given by their code points.
\<close>

type_synonym pystr = "nat list"

definition lit :: "string \<Rightarrow> pystr" where
  "lit s = map of_char s"

text \<open>
  \<^verbatim>\<open>str.strip()\<close> without arguments removes leading and trailing characters for which
  \<^verbatim>\<open>str.isspace\<close> holds: the ASCII ones (tab, LF, VT, FF, CR, FS, GS, RS, US, space)
  and the Unicode white space U+0085, U+00A0, U+1680, U+2000..U+200A, U+2028, U+2029,
  U+202F, U+205F, U+3000.
\<close>

definition isspace :: "nat \<Rightarrow> bool" where
  "isspace c \<longleftrightarrow>
     c \<in> {9, 10, 11, 12, 13, 28, 29, 30, 31, 32, 133, 160, 5760, 8232, 8233, 8239, 8287, 12288}
     \<or> (8192 \<le> c \<and> c \<le> 8202)"

definition strip :: "pystr \<Rightarrow> pystr" where
  "strip s = rev (dropWhile isspace (rev (dropWhile isspace s)))"

text \<open>
  \<^verbatim>\<open>str.lower()\<close> on a string of ASCII characters maps \<open>A..Z\<close> to \<open>a..z\<close> and
  leaves every other character alone. Outside ASCII it follows the Unicode case tables,
  which are not part of the repository: they are the parameter \<open>U\<close> (a function on whole
  strings, since the mapping of capital sigma depends on its context).
\<close>

definition ascii_lower :: "nat \<Rightarrow> nat" where
  "ascii_lower c = (if 65 \<le> c \<and> c \<le> 90 then c + 32 else c)"

definition lower :: "(pystr \<Rightarrow> pystr) \<Rightarrow> pystr \<Rightarrow> pystr" where
  "lower U s = (if list_all (\<lambda>c. c < 128) s then map ascii_lower s else U s)"

text \<open>\<^verbatim>\<open>a in b\<close> on strings: \<open>a\<close> occurs in \<open>b\<close> as a contiguous substring.\<close>

fun startswith :: "pystr \<Rightarrow> pystr \<Rightarrow> bool" where
  "startswith s [] = True"
| "startswith [] (p # ps) = False"
| "startswith (c # cs) (p # ps) = (c = p \<and> startswith cs ps)"

fun contains :: "pystr \<Rightarrow> pystr \<Rightarrow> bool" where
  "contains [] a = (a = [])"
| "contains (c # cs) a = (startswith (c # cs) a \<or> contains cs a)"






section \<open>The external collaborator\<close>

text \<open>
  \<^verbatim>\<open>ollama.chat\<close> is outside the repository. A call either raises or yields the text
  \<^verbatim>\<open>.message.content\<close>. The collaborator is a parameter \<open>C\<close>: it maps the requests
  made so far, the current one last, to the outcome of the current call, so that any
  deterministic service is covered and the log of requests counts the calls.
\<close>

datatype exn = CollaboratorError | JSONDecodeError | ValidationError | TypeError | UnboundLocalError

datatype 'a outcome = Returned 'a | Raised exn

record request =
  model :: pystr
  system :: pystr
  user :: pystr
  format :: "pystr option"
  options_temperature :: rat

type_synonym collaborator = "request list \<Rightarrow> exn + pystr"

definition chat :: "collaborator \<Rightarrow> request list \<Rightarrow> request \<Rightarrow> (exn + pystr) \<times> request list" where
  "chat C hist req = (C (hist @ [req]), hist @ [req])"

text \<open>
  A collaborator that answers the \<open>k\<close>-th call with the \<open>k\<close>-th text of a script and
  raises once the script is used up; it serves to run the model on concrete dialogues.
\<close>

definition scripted :: "pystr list \<Rightarrow> collaborator" where
  "scripted rs h =
     (if 0 < length h \<and> length h \<le> length rs then Inr (rs ! (length h - 1))
      else Inl CollaboratorError)"

definition MODEL_NAME :: pystr where
  "MODEL_NAME = lit ''llama3.1:8b''"

section \<open>Identity generation\<close>

text \<open>The category prompts of \<^verbatim>\<open>generate_identity\<close>; \<open>None\<close> is the final \<^verbatim>\<open>else\<close>.\<close>

definition category_prompt :: "pystr \<Rightarrow> pystr \<Rightarrow> pystr option" where
  "category_prompt identity_type custom_details =
    (if identity_type = lit ''Random Character'' then
       Some (lit ''Generate a random identity for a guessing game. Include historical figures, fictional characters, ''
         @ [10] @ lit ''celebrities, professionals, etc. The player will try to guess who this is through yes/no questions.'')
     else if identity_type = lit ''Historical Figure'' then
       Some (lit ''Generate a historical figure identity for a guessing game. Choose someone significant from ''
         @ [10] @ lit ''any time period in history. The player will try to guess who this is through yes/no questions.'')
     else if identity_type = lit ''Fictional Character'' then
       Some (lit ''Generate a fictional character identity for a guessing game. This could be from literature, ''
         @ [10] @ lit ''movies, TV shows, comics, etc. The player will try to guess who this is through yes/no questions.'')
     else if identity_type = lit ''Profession/Role'' then
       Some (lit ''Generate an identity based on a profession or role for a guessing game. ''
         @ [10] @ lit ''This could be any occupation (doctor, astronaut, teacher, etc.) or role (parent, leader, student, etc.) ''
         @ [10] @ lit ''The player will try to guess what this profession/role is through yes/no questions.'')
     else if identity_type = lit ''Custom'' then
       Some (lit ''Generate an identity for a guessing game based on these details: '' @ custom_details
         @ [10] @ lit ''The player will try to guess who/what this is through yes/no questions.'')
     else None)"

definition generator_system_prompt :: pystr where
  "generator_system_prompt =
     [10] @ lit ''You are an identity generator for a yes/no guessing game. Create a compelling identity that players can guess through yes/no questions.''
     @ [10, 10] @ lit ''Your task is to:''
     @ [10] @ lit ''- Create a specific identity (person, character, profession, or concept)''
     @ [10, 10] @ lit ''**Your output must be just the name of the identity, no other text.**''
     @ [10] @ lit ''    ''"

text \<open>
  The loop \<^verbatim>\<open>for _ in range(max_retries): raw = chat(...).message.content.strip()\<close>.
  The last argument is the variable \<^verbatim>\<open>raw\<close>: \<open>None\<close> while it is unbound. An
  exception of the collaborator leaves the loop.
\<close>

fun generate_loop ::
  "nat \<Rightarrow> collaborator \<Rightarrow> request list \<Rightarrow> request \<Rightarrow> pystr option
     \<Rightarrow> pystr option outcome \<times> request list" where
  "generate_loop 0 C hist req raw = (Returned raw, hist)"
| "generate_loop (Suc n) C hist req raw =
     (case chat C hist req of
        (Inl e, hist') \<Rightarrow> (Raised e, hist')
      | (Inr content, hist') \<Rightarrow> generate_loop n C hist' req (Some (strip content)))"

definition generate_request :: "pystr \<Rightarrow> request" where
  "generate_request prompt =
     \<lparr>model = MODEL_NAME, system = generator_system_prompt, user = prompt,
      format = None, options_temperature = 7 / 10\<rparr>"

text \<open>
  \<^verbatim>\<open>generate_identity\<close>: the result \<open>Returned None\<close> is Python's \<^verbatim>\<open>return None\<close>;
  \<^verbatim>\<open>return raw\<close> with \<^verbatim>\<open>raw\<close> unbound would be an \<^verbatim>\<open>UnboundLocalError\<close>.
\<close>

definition generate_identity ::
  "collaborator \<Rightarrow> request list \<Rightarrow> pystr \<Rightarrow> pystr \<Rightarrow> pystr option outcome \<times> request list" where
  "generate_identity C hist identity_type custom_details =
     (case category_prompt identity_type custom_details of
        None \<Rightarrow> (Returned None, hist)
      | Some prompt \<Rightarrow>
          (let max_retries = 3 in
           case generate_loop max_retries C hist (generate_request prompt) None of
             (Raised e, hist') \<Rightarrow> (Raised e, hist')
           | (Returned None, hist') \<Rightarrow> (Raised UnboundLocalError, hist')
           | (Returned (Some raw), hist') \<Rightarrow> (Returned (Some raw), hist')))"

definition category_tags :: "pystr set" where
  "category_tags = {lit ''Random Character'', lit ''Historical Figure'', lit ''Fictional Character'',
     lit ''Profession/Role'', lit ''Custom''}"

section \<open>JSON decoding (\<^verbatim>\<open>json.loads\<close>)\<close>

text \<open>
  \<^verbatim>\<open>json.loads\<close> belongs to Python's standard library, not to the repository. It is
  modelled on the documented behaviour of the default decoder: white space is blank, tab,
  LF and CR; strings are read strictly (no raw control characters, the escapes
  \<^verbatim>\<open>\" \\ \/ \b \f \n \r \t \uXXXX\<close>, a \<^verbatim>\<open>\u\<close> escape of a high surrogate directly
  followed by one of a low surrogate is joined); numbers follow
  \<^verbatim>\<open>-?(0|[1-9][0-9]*)(\.[0-9]+)?([eE][-+]?[0-9]+)?\<close>; besides \<^verbatim>\<open>null\<close>,
  \<^verbatim>\<open>true\<close> and \<^verbatim>\<open>false\<close> the constants \<^verbatim>\<open>NaN\<close>, \<^verbatim>\<open>Infinity\<close> and
  \<^verbatim>\<open>-Infinity\<close> are accepted. Every malformed text raises \<^verbatim>\<open>JSONDecodeError\<close>
  (here \<open>None\<close>).

  The limits of the interpreter are not modelled: on an integer literal of more than
  4300 digits CPython raises a plain \<^verbatim>\<open>ValueError\<close>, and on nesting deeper than its
  recursion limit a \<^verbatim>\<open>RecursionError\<close>, where \<open>json_loads\<close> yields the value. Neither
  is a \<^verbatim>\<open>JSONDecodeError\<close>, so the validator's \<^verbatim>\<open>except\<close> clause would not catch
  them. Every result below that runs the decoder does so on a text of fewer than a
  hundred characters, far from both limits; the general lemmas about \<open>attempt\<close> and
  \<open>ask_loop\<close> are about the decoder as modelled here.

  A float is kept as the exact decimal of its literal: \<open>JFloat r\<close> stands for the double
  nearest to \<open>r\<close>. A \<^verbatim>\<open>dict\<close> is kept as the list of its members in the order read;
  a later member with the same key overrides an earlier one (\<open>dict_get\<close>).
\<close>

datatype json =
    JNull
  | JBool bool
  | JInt int
  | JFloat rat
  | JNaN
  | JInfinity
  | JNegInfinity
  | JStr pystr
  | JList "json list"
  | JDict "(pystr \<times> json) list"

definition dict_get :: "(pystr \<times> json) list \<Rightarrow> pystr \<Rightarrow> json option" where
  "dict_get kvs k = map_of (rev kvs) k"

subsection \<open>Strings\<close>

definition hexval :: "nat \<Rightarrow> nat option" where
  "hexval c =
     (if 48 \<le> c \<and> c \<le> 57 then Some (c - 48)
      else if 65 \<le> c \<and> c \<le> 70 then Some (c - 55)
      else if 97 \<le> c \<and> c \<le> 102 then Some (c - 87)
      else None)"

definition hex4 :: "nat \<Rightarrow> nat \<Rightarrow> nat \<Rightarrow> nat \<Rightarrow> nat option" where
  "hex4 a b c d =
     (case (hexval a, hexval b, hexval c, hexval d) of
        (Some w, Some x, Some y, Some z) \<Rightarrow> Some (((w * 16 + x) * 16 + y) * 16 + z)
      | _ \<Rightarrow> None)"

text \<open>The table \<^verbatim>\<open>BACKSLASH\<close> of the decoder: the character after a backslash.\<close>

definition BACKSLASH :: "nat \<Rightarrow> nat option" where
  "BACKSLASH e =
     (if e = 34 then Some 34
      else if e = 92 then Some 92
      else if e = 47 then Some 47
      else if e = 98 then Some 8
      else if e = 102 then Some 12
      else if e = 110 then Some 10
      else if e = 114 then Some 13
      else if e = 116 then Some 9
      else None)"

text \<open>
  The body of a string literal, read after its opening quote: the characters up to the
  closing quote, and the text after it. A character that came from a \<^verbatim>\<open>\u\<close> escape is
  marked, since only two such escapes are joined into one character.
\<close>

datatype item = Plain nat | Esc nat

fun scan_items :: "pystr \<Rightarrow> (item list \<times> pystr) option" where
  "scan_items [] = None"
| "scan_items (c # cs) =
     (if c = 34 then Some ([], cs)
      else if c < 32 then None
      else if c \<noteq> 92 then
        (case scan_items cs of
           None \<Rightarrow> None
         | Some (its, rest) \<Rightarrow> Some (Plain c # its, rest))
      else
        (case cs of
           [] \<Rightarrow> None
         | e # r \<Rightarrow>
             if e = 117 then
               (case r of
                  h1 # h2 # h3 # h4 # r' \<Rightarrow>
                    (case hex4 h1 h2 h3 h4 of
                       None \<Rightarrow> None
                     | Some u \<Rightarrow>
                         (case scan_items r' of
                            None \<Rightarrow> None
                          | Some (its, rest) \<Rightarrow> Some (Esc u # its, rest)))
                | _ \<Rightarrow> None)
             else
               (case BACKSLASH e of
                  None \<Rightarrow> None
                | Some ch \<Rightarrow>
                    (case scan_items r of
                       None \<Rightarrow> None
                     | Some (its, rest) \<Rightarrow> Some (Plain ch # its, rest)))))"

fun join_surrogates :: "item list \<Rightarrow> pystr" where
  "join_surrogates [] = []"
| "join_surrogates [Plain c] = [c]"
| "join_surrogates [Esc u] = [u]"
| "join_surrogates (Plain c # it # its) = c # join_surrogates (it # its)"
| "join_surrogates (Esc u # Plain c # its) = u # c # join_surrogates its"
| "join_surrogates (Esc u # Esc v # its) =
     (if 55296 \<le> u \<and> u \<le> 56319 \<and> 56320 \<le> v \<and> v \<le> 57343
      then (65536 + (u - 55296) * 1024 + (v - 56320)) # join_surrogates its
      else u # join_surrogates (Esc v # its))"

definition scanstring :: "pystr \<Rightarrow> (pystr \<times> pystr) option" where
  "scanstring s =
     (case scan_items s of
        None \<Rightarrow> None
      | Some (its, rest) \<Rightarrow> Some (join_surrogates its, rest))"

subsection \<open>Numbers\<close>

definition isdigit :: "nat \<Rightarrow> bool" where
  "isdigit c \<longleftrightarrow> 48 \<le> c \<and> c \<le> 57"

definition digits_value :: "pystr \<Rightarrow> int" where
  "digits_value ds = foldl (\<lambda>v c. 10 * v + (int c - 48)) 0 ds"

definition decimal :: "int \<Rightarrow> int \<Rightarrow> rat" where
  "decimal m e = (if 0 \<le> e then of_int (m * 10 ^ nat e) else of_int m / of_int (10 ^ nat (- e)))"

text \<open>The integer part \<^verbatim>\<open>0|[1-9][0-9]*\<close>: its digits and the text after them.\<close>

definition match_int :: "pystr \<Rightarrow> (pystr \<times> pystr) option" where
  "match_int s =
     (case s of
        [] \<Rightarrow> None
      | d # r \<Rightarrow>
          if d = 48 then Some ([d], r)
          else if 49 \<le> d \<and> d \<le> 57 then Some (d # takeWhile isdigit r, dropWhile isdigit r)
          else None)"

text \<open>The optional fraction \<^verbatim>\<open>\.[0-9]+\<close>: its digits (empty when absent) and the rest.\<close>

definition match_frac :: "pystr \<Rightarrow> pystr \<times> pystr" where
  "match_frac s =
     (case s of
        [] \<Rightarrow> ([], s)
      | d # r \<Rightarrow>
          if d = 46 \<and> takeWhile isdigit r \<noteq> [] then (takeWhile isdigit r, dropWhile isdigit r)
          else ([], s))"

text \<open>The optional exponent \<^verbatim>\<open>[eE][-+]?[0-9]+\<close>: its value when present, and the rest.\<close>

definition match_exp :: "pystr \<Rightarrow> int option \<times> pystr" where
  "match_exp s =
     (case s of
        [] \<Rightarrow> (None, s)
      | e # r \<Rightarrow>
          if e = 101 \<or> e = 69 then
            (case r of
               [] \<Rightarrow> (None, s)
             | g # r' \<Rightarrow>
                 if g = 43 \<or> g = 45 then
                   (if takeWhile isdigit r' \<noteq> []
                    then (Some ((if g = 45 then - 1 else 1) * digits_value (takeWhile isdigit r')),
                          dropWhile isdigit r')
                    else (None, s))
                 else if takeWhile isdigit r \<noteq> []
                 then (Some (digits_value (takeWhile isdigit r)), dropWhile isdigit r)
                 else (None, s))
          else (None, s))"

definition match_number :: "pystr \<Rightarrow> (json \<times> pystr) option" where
  "match_number s =
     (let neg = (s \<noteq> [] \<and> hd s = 45);
          sgn = (if neg then - 1 else 1)
      in case match_int (if neg then tl s else s) of
           None \<Rightarrow> None
         | Some (ds, r1) \<Rightarrow>
             (case match_frac r1 of
                (fs, r2) \<Rightarrow>
                  (case match_exp r2 of
                     (ex, r3) \<Rightarrow>
                       if fs = [] \<and> ex = None then Some (JInt (sgn * digits_value ds), r3)
                       else Some (JFloat (decimal (sgn * digits_value (ds @ fs))
                                    ((case ex of None \<Rightarrow> 0 | Some x \<Rightarrow> x) - int (length fs))), r3))))"

subsection \<open>Tokens\<close>

datatype token =
    TLBrace | TRBrace | TLBracket | TRBracket | TColon | TComma
  | TStr pystr
  | TAtom json
  | TError

definition is_ws :: "nat \<Rightarrow> bool" where
  "is_ws c \<longleftrightarrow> c = 32 \<or> c = 9 \<or> c = 10 \<or> c = 13"

text \<open>
  One token at the head of a text that does not start with white space, and the text
  after it. \<open>TError\<close> stands where no value and no punctuation can be read.
\<close>

definition next_token :: "nat \<Rightarrow> pystr \<Rightarrow> token \<times> pystr" where
  "next_token c cs =
     (if c = 123 then (TLBrace, cs)
      else if c = 125 then (TRBrace, cs)
      else if c = 91 then (TLBracket, cs)
      else if c = 93 then (TRBracket, cs)
      else if c = 58 then (TColon, cs)
      else if c = 44 then (TComma, cs)
      else if c = 34 then
        (case scanstring cs of None \<Rightarrow> (TError, []) | Some (s, rest) \<Rightarrow> (TStr s, rest))
      else if startswith (c # cs) (lit ''null'') then (TAtom JNull, drop 3 cs)
      else if startswith (c # cs) (lit ''true'') then (TAtom (JBool True), drop 3 cs)
      else if startswith (c # cs) (lit ''false'') then (TAtom (JBool False), drop 4 cs)
      else
        (case match_number (c # cs) of
           Some (v, rest) \<Rightarrow> (TAtom v, rest)
         | None \<Rightarrow>
             if startswith (c # cs) (lit ''NaN'') then (TAtom JNaN, drop 2 cs)
             else if startswith (c # cs) (lit ''Infinity'') then (TAtom JInfinity, drop 7 cs)
             else if startswith (c # cs) (lit ''-Infinity'') then (TAtom JNegInfinity, drop 8 cs)
             else (TError, [])))"

function tokenize :: "pystr \<Rightarrow> token list" where
  "tokenize [] = []"
| "tokenize (c # cs) =
     (if is_ws c then tokenize cs
      else (case next_token c cs of (tok, rest) \<Rightarrow> tok # tokenize rest))"
  by pat_completeness auto

lemma scan_items_length:
  "scan_items s = Some (its, rest) \<Longrightarrow> length rest < length s"
proof (induction s arbitrary: its rest rule: scan_items.induct)
  case 1
  then show ?case by simp
next
  case (2 c cs)
  then show ?case
    by (fastforce split: if_splits option.splits list.splits prod.splits)
qed

lemma match_int_length:
  "match_int s = Some (ds, r) \<Longrightarrow> length r < length s"
  by (auto simp: match_int_def less_Suc_eq_le length_dropWhile_le split: list.splits if_splits)

lemma match_frac_length: "match_frac s = (fs, r) \<Longrightarrow> length r \<le> length s"
  by (auto simp: match_frac_def le_SucI length_dropWhile_le split: list.splits if_splits)

lemma match_exp_length: "match_exp s = (ex, r) \<Longrightarrow> length r \<le> length s"
  by (auto simp: match_exp_def le_SucI length_dropWhile_le split: list.splits if_splits)

lemma match_number_length:
  assumes "match_number (c # cs) = Some (v, rest)"
  shows "length rest \<le> length cs"
proof -
  from assms obtain ds r1 fs r2 ex where
    a: "match_int (if c = 45 then cs else c # cs) = Some (ds, r1)"
    and b: "match_frac r1 = (fs, r2)" and c: "match_exp r2 = (ex, rest)"
    by (auto simp: match_number_def Let_def split: option.splits prod.splits if_splits)
  from a have "length r1 \<le> length cs"
    using match_int_length [OF a] by (auto split: if_splits)
  with match_frac_length [OF b] match_exp_length [OF c] show ?thesis by simp
qed

lemma next_token_length: "next_token c cs = (tok, rest) \<Longrightarrow> length rest \<le> length cs"
  by (auto simp: next_token_def scanstring_def split: if_splits option.splits prod.splits
      dest: scan_items_length match_number_length)

termination tokenize
  by (relation "measure length") (auto dest: next_token_length [OF sym] simp: less_Suc_eq_le)

subsection \<open>Values\<close>

text \<open>
  The grammar is read with an explicit stack of the containers that are still open: a
  list with the elements read so far, a dict with its members, or a dict whose next value
  belongs to a key already read. \<open>expect\<close> says what may come next.
\<close>

datatype frame =
    FList "json list"
  | FDict "(pystr \<times> json) list"
  | FKey "(pystr \<times> json) list" pystr

datatype expect = EValue | EValueOrClose | EKeyOrClose | EKey | EColon | ENext | EEnd json

text \<open>A finished value goes into the innermost open container, or is the result.\<close>

fun fill :: "json \<Rightarrow> frame list \<Rightarrow> (expect \<times> frame list) option" where
  "fill v [] = Some (EEnd v, [])"
| "fill v (FList xs # fs) = Some (ENext, FList (xs @ [v]) # fs)"
| "fill v (FKey kvs k # fs) = Some (ENext, FDict (kvs @ [(k, v)]) # fs)"
| "fill v (FDict kvs # fs) = None"

text \<open>A token where a value may start.\<close>

definition value_token :: "frame list \<Rightarrow> token \<Rightarrow> (expect \<times> frame list) option" where
  "value_token fs t =
     (case t of
        TStr s \<Rightarrow> fill (JStr s) fs
      | TAtom v \<Rightarrow> fill v fs
      | TLBrace \<Rightarrow> Some (EKeyOrClose, FDict [] # fs)
      | TLBracket \<Rightarrow> Some (EValueOrClose, FList [] # fs)
      | _ \<Rightarrow> None)"

definition key_token :: "frame list \<Rightarrow> token \<Rightarrow> (expect \<times> frame list) option" where
  "key_token fs t =
     (case fs of
        FDict kvs # fs' \<Rightarrow> (case t of TStr k \<Rightarrow> Some (EColon, FKey kvs k # fs') | _ \<Rightarrow> None)
      | _ \<Rightarrow> None)"

definition close_token :: "frame list \<Rightarrow> token \<Rightarrow> (expect \<times> frame list) option" where
  "close_token fs t =
     (case fs of
        FList xs # fs' \<Rightarrow> (case t of TRBracket \<Rightarrow> fill (JList xs) fs' | _ \<Rightarrow> None)
      | FDict kvs # fs' \<Rightarrow> (case t of TRBrace \<Rightarrow> fill (JDict kvs) fs' | _ \<Rightarrow> None)
      | _ \<Rightarrow> None)"

definition step :: "expect \<Rightarrow> frame list \<Rightarrow> token \<Rightarrow> (expect \<times> frame list) option" where
  "step e fs t =
     (case e of
        EValue \<Rightarrow> value_token fs t
      | EValueOrClose \<Rightarrow> if t = TRBracket then close_token fs t else value_token fs t
      | EKeyOrClose \<Rightarrow> if t = TRBrace then close_token fs t else key_token fs t
      | EKey \<Rightarrow> key_token fs t
      | EColon \<Rightarrow> if t = TColon then Some (EValue, fs) else None
      | ENext \<Rightarrow>
          if t = TComma
          then (case fs of
                  FList xs # fs' \<Rightarrow> Some (EValue, fs)
                | FDict kvs # fs' \<Rightarrow> Some (EKey, fs)
                | _ \<Rightarrow> None)
          else close_token fs t
      | EEnd v \<Rightarrow> None)"

fun run :: "expect \<Rightarrow> frame list \<Rightarrow> token list \<Rightarrow> json option" where
  "run (EEnd v) fs [] = Some v"
| "run e fs [] = None"
| "run e fs (t # ts) =
     (case step e fs t of
        None \<Rightarrow> None
      | Some (e', fs') \<Rightarrow> run e' fs' ts)"

definition json_loads :: "pystr \<Rightarrow> json option" where
  "json_loads s = run EValue [] (tokenize s)"

section \<open>The response model\<close>

text \<open>
  \<^verbatim>\<open>class IdentityAnswer(BaseModel)\<close> with the fields \<^verbatim>\<open>response: str\<close>,
  \<^verbatim>\<open>is_question: bool\<close>, \<^verbatim>\<open>is_correct_guess: bool\<close>.
\<close>

record IdentityAnswer =
  response :: pystr
  is_question :: bool
  is_correct_guess :: bool

text \<open>
  Validation is done by pydantic, which is not part of the repository. The class sets no
  configuration, so pydantic's default (lax) conversion of version 2 applies to the
  keyword arguments: a \<^verbatim>\<open>str\<close> field takes a string only; a \<^verbatim>\<open>bool\<close> field takes
  a boolean, the integers 0 and 1, the floats 0.0 and 1.0, and the strings
  \<^verbatim>\<open>0 1 f t n y no on off yes true false\<close> (the letters in either case); a field that
  is missing fails; other keys are ignored.
\<close>

definition eq_ignore_ascii_case :: "pystr \<Rightarrow> pystr \<Rightarrow> bool" where
  "eq_ignore_ascii_case a b \<longleftrightarrow> map ascii_lower a = map ascii_lower b"

definition str_as_bool :: "pystr \<Rightarrow> bool option" where
  "str_as_bool s =
     (if s = lit ''0'' \<or> eq_ignore_ascii_case s (lit ''f'') \<or> eq_ignore_ascii_case s (lit ''n'')
         \<or> eq_ignore_ascii_case s (lit ''no'') \<or> eq_ignore_ascii_case s (lit ''off'')
         \<or> eq_ignore_ascii_case s (lit ''false'')
      then Some False
      else if s = lit ''1'' \<or> eq_ignore_ascii_case s (lit ''t'') \<or> eq_ignore_ascii_case s (lit ''y'')
         \<or> eq_ignore_ascii_case s (lit ''on'') \<or> eq_ignore_ascii_case s (lit ''yes'')
         \<or> eq_ignore_ascii_case s (lit ''true'')
      then Some True
      else None)"

text \<open>
  The double nearest to a decimal \<open>r\<close> (ties to even) is 0.0 exactly when
  \<open>\<bar>r\<bar> \<le> 1 / 2 ^ 1075\<close>, and 1.0 exactly when \<open>1 - 1 / 2 ^ 54 \<le> r \<le> 1 + 1 / 2 ^ 53\<close>.
\<close>

definition float_is_zero :: "rat \<Rightarrow> bool" where
  "float_is_zero r \<longleftrightarrow> \<bar>r\<bar> * 2 ^ 1075 \<le> 1"

definition float_is_one :: "rat \<Rightarrow> bool" where
  "float_is_one r \<longleftrightarrow> 2 ^ 54 - 1 \<le> r * 2 ^ 54 \<and> r * 2 ^ 53 \<le> 2 ^ 53 + 1"

fun validate_str :: "json \<Rightarrow> pystr option" where
  "validate_str (JStr s) = Some s"
| "validate_str v = None"

fun validate_bool :: "json \<Rightarrow> bool option" where
  "validate_bool (JBool b) = Some b"
| "validate_bool (JStr s) = str_as_bool s"
| "validate_bool (JInt i) = (if i = 0 then Some False else if i = 1 then Some True else None)"
| "validate_bool (JFloat r) =
     (if float_is_zero r then Some False else if float_is_one r then Some True else None)"
| "validate_bool v = None"

definition model_validate :: "(pystr \<times> json) list \<Rightarrow> IdentityAnswer option" where
  "model_validate kvs =
     (case dict_get kvs (lit ''response'') of
        None \<Rightarrow> None
      | Some r \<Rightarrow>
          (case dict_get kvs (lit ''is_question'') of
             None \<Rightarrow> None
           | Some q \<Rightarrow>
               (case dict_get kvs (lit ''is_correct_guess'') of
                  None \<Rightarrow> None
                | Some g \<Rightarrow>
                    (case (validate_str r, validate_bool q, validate_bool g) of
                       (Some r', Some q', Some g') \<Rightarrow>
                         Some \<lparr>response = r', is_question = q', is_correct_guess = g'\<rparr>
                     | _ \<Rightarrow> None))))"

section \<open>The answer validator\<close>

text \<open>
  \<^verbatim>\<open>IdentityAnswer(**json.loads(text))\<close>: \<^verbatim>\<open>json.loads\<close> may raise
  \<^verbatim>\<open>JSONDecodeError\<close>; unpacking with \<^verbatim>\<open>**\<close> a value that is no mapping raises
  \<^verbatim>\<open>TypeError\<close>; pydantic raises \<^verbatim>\<open>ValidationError\<close>.
\<close>

definition load_answer :: "pystr \<Rightarrow> exn + IdentityAnswer" where
  "load_answer text =
     (case json_loads text of
        None \<Rightarrow> Inl JSONDecodeError
      | Some (JDict kvs) \<Rightarrow>
          (case model_validate kvs of
             None \<Rightarrow> Inl ValidationError
           | Some a \<Rightarrow> Inr a)
      | Some _ \<Rightarrow> Inl TypeError)"

text \<open>
  \<^verbatim>\<open>JSON_RE = re.compile(r"\{.*?\}", re.S)\<close> and \<^verbatim>\<open>JSON_RE.search(raw)\<close>: the
  leftmost match starts at the first \<^verbatim>\<open>{\<close>; the lazy \<^verbatim>\<open>.*?\<close> (which matches line
  breaks too) ends it at the first \<^verbatim>\<open>}\<close> after that. Without a \<^verbatim>\<open>}\<close> after the
  first \<^verbatim>\<open>{\<close> no later start can match either. The result is \<^verbatim>\<open>m.group(0)\<close>.
\<close>

definition JSON_RE_search :: "pystr \<Rightarrow> pystr option" where
  "JSON_RE_search raw =
     (case dropWhile (\<lambda>c. c \<noteq> 123) raw of
        [] \<Rightarrow> None
      | c # rest \<Rightarrow>
          if 125 \<in> set rest then Some (c # takeWhile (\<lambda>c. c \<noteq> 125) rest @ [125]) else None)"

text \<open>
  The body of the retry loop after the collaborator's text has been trimmed: the fast
  path, then the fallback. \<open>Pass\<close> is the end of the body without a \<^verbatim>\<open>return\<close>.
\<close>

datatype 'a body = Return 'a | Raise exn | Pass

definition caught :: "exn \<Rightarrow> bool" where
  "caught e \<longleftrightarrow> e = JSONDecodeError \<or> e = ValidationError"

definition attempt :: "pystr \<Rightarrow> IdentityAnswer body" where
  "attempt raw =
     (case load_answer raw of
        Inr a \<Rightarrow> Return a
      | Inl e \<Rightarrow>
          if \<not> caught e then Raise e
          else
            (case JSON_RE_search raw of
               None \<Rightarrow> Pass
             | Some m \<Rightarrow>
                 (case load_answer m of
                    Inr a \<Rightarrow> Return a
                  | Inl e' \<Rightarrow> if \<not> caught e' then Raise e' else Pass)))"

fun ask_loop ::
  "nat \<Rightarrow> collaborator \<Rightarrow> request list \<Rightarrow> request
     \<Rightarrow> IdentityAnswer option outcome \<times> request list" where
  "ask_loop 0 C hist req = (Returned None, hist)"
| "ask_loop (Suc n) C hist req =
     (case chat C hist req of
        (Inl e, hist') \<Rightarrow> (Raised e, hist')
      | (Inr content, hist') \<Rightarrow>
          (case attempt (strip content) of
             Return a \<Rightarrow> (Returned (Some a), hist')
           | Raise e \<Rightarrow> (Raised e, hist')
           | Pass \<Rightarrow> ask_loop n C hist' req))"

text \<open>
  \<^verbatim>\<open>SYSTEM_PROMPT.format(identity=identity)\<close>: the template with the identity put in
  at its two places and the doubled braces written once.
\<close>

definition SYSTEM_PROMPT_format :: "pystr \<Rightarrow> pystr" where
  \<open>SYSTEM_PROMPT_format identity =
     [10] @ lit ''You are identity: '' @ identity @ lit ''.'' @ [10, 10]
     @ lit ''You are playing a guessing game with the user. They are trying to figure out who or what you are.''
     @ [10, 10] @ lit ''Rules for you (the AI):'' @ [10]
     @ lit ''- For questions that gives clues about your identity, only respond with "yes" or "no".''
     @ [10]
     @ lit ''- If the question is ambiguous or unanswerable, ask the user to clarify to help you answer.''
     @ [10] @ lit ''- If the user asks if you are '' @ identity
     @ lit '', congratulate them, set "is_correct_guess": true and end the game.'' @ [10]
     @ lit ''- Keep answers short.'' @ [10]
     @ lit ''- If the user does not give a direct guess or asks a question that is not a yes/no question, encourage the user to ask a yes/no question and set "is_question": false.''
     @ [10] @ lit ''- Drive the conversation towards the game, do not talk about anything else.''
     @ [10, 10] @ lit ''# Output format:'' @ [10]
     @ lit ''Respond **EXCLUSIVELY** with a single JSON object and *nothing* else. The JSON must match exactly:''
     @ [10] @ lit ''{'' @ [10] @ lit ''  "response": "string",           # Your reply to the user''
     @ [10]
     @ lit ''  "is_question": true|false,      # True if the question is a part of the game (yes/no or identity guess). Else false.''
     @ [10]
     @ lit ''  "is_correct_guess": true|false  # True if the user correctly guessed your identity. Else false.''
     @ [10] @ lit ''}'' @ [10, 10]
     @ lit ''NO markdown fences, headings, pre-ambles, or extra text before/after the JSON.'' @ [10]\<close>

text \<open>
  \<^verbatim>\<open>ask_identity_ai(user_input, identity, max_retries=3, temperature=0.2)\<close>;
  \<^verbatim>\<open>range(max_retries)\<close> is empty for a count that is not positive.
\<close>

definition ask_identity_ai ::
  "collaborator \<Rightarrow> request list \<Rightarrow> pystr \<Rightarrow> pystr \<Rightarrow> int \<Rightarrow> rat
     \<Rightarrow> IdentityAnswer option outcome \<times> request list" where
  "ask_identity_ai C hist user_input identity max_retries temperature =
     ask_loop (nat max_retries) C hist
       \<lparr>model = MODEL_NAME, system = SYSTEM_PROMPT_format identity, user = user_input,
        format = Some (lit ''json''), options_temperature = temperature\<rparr>"

section \<open>Session state\<close>

text \<open>
  \<^verbatim>\<open>st.session_state\<close>. The keys \<^verbatim>\<open>identity_type\<close> and \<^verbatim>\<open>custom_details\<close> are
  read with \<^verbatim>\<open>.get\<close> and a default, so they may be absent (\<open>None\<close>). The keys
  \<^verbatim>\<open>identity\<close>, \<^verbatim>\<open>question_count\<close>, \<^verbatim>\<open>game_over\<close> and \<^verbatim>\<open>messages\<close> are all
  set by \<^verbatim>\<open>reset_game\<close>, which is the only place that sets \<^verbatim>\<open>setup_complete\<close> to
  true, and the play screen is reached only when \<^verbatim>\<open>setup_complete\<close> is true: they are
  plain fields.
\<close>

record session =
  identity_type :: "pystr option"
  custom_details :: "pystr option"
  identity :: pystr
  question_count :: int
  game_over :: bool
  setup_complete :: bool
  messages :: "(pystr \<times> pystr) list"
  last_answer :: "IdentityAnswer option"

definition welcome_message :: pystr where
  "welcome_message =
     lit ''Guess the secret identity using yes/no questions.  ''
     @ [10] @ lit ''Try to guess in as few questions as possible!''"

text \<open>
  \<^verbatim>\<open>reset_game\<close>: \<^verbatim>\<open>if new_identity:\<close> is false for \<^verbatim>\<open>None\<close> and for the empty
  string. An exception of \<^verbatim>\<open>generate_identity\<close> leaves the function before any key
  is written.
\<close>

definition reset_game ::
  "collaborator \<Rightarrow> request list \<Rightarrow> session \<Rightarrow> session outcome \<times> request list" where
  "reset_game C hist st =
     (case generate_identity C hist
             (case identity_type st of None \<Rightarrow> lit ''Random Character'' | Some t \<Rightarrow> t)
             (case custom_details st of None \<Rightarrow> [] | Some d \<Rightarrow> d) of
        (Raised e, hist') \<Rightarrow> (Raised e, hist')
      | (Returned new_identity, hist') \<Rightarrow>
          (Returned
            (st\<lparr>identity :=
                   (case new_identity of
                      None \<Rightarrow> lit ''Albert Einstein''
                    | Some s \<Rightarrow> if s = [] then lit ''Albert Einstein'' else s),
                question_count := 0,
                game_over := False,
                setup_complete := True,
                messages := [(lit ''System'', welcome_message)]\<rparr>),
           hist'))"

definition setup_game :: "pystr \<Rightarrow> pystr \<Rightarrow> session \<Rightarrow> session" where
  "setup_game t d st = st\<lparr>identity_type := Some t, custom_details := Some d\<rparr>"

section \<open>The play screen of \<^verbatim>\<open>main\<close>\<close>

text \<open>
  \<^verbatim>\<open>main\<close> is the script that Streamlit runs once per interaction. Its effect on the
  session is modelled; what it draws is not. A run ends with \<^verbatim>\<open>st.stop()\<close>, with
  \<^verbatim>\<open>st.rerun()\<close>, at the end of the script, or with an exception.
\<close>

datatype control = Stop | Rerun | End | Threw exn

text \<open>The give-up button (lines 239 to 243).\<close>

definition main_give_up :: "session \<Rightarrow> session \<times> control" where
  "main_give_up st =
     (st\<lparr>messages := messages st @
           [(lit ''System'', lit ''You gave up. The identity was **'' @ identity st @ lit ''**.'')],
         game_over := True\<rparr>,
      Rerun)"

text \<open>\<^verbatim>\<open>str\<close> of an integer, for the f-string of the end message.\<close>

fun digits :: "nat \<Rightarrow> pystr" where
  "digits n = (if n < 10 then [48 + n] else digits (n div 10) @ [48 + n mod 10])"

definition str_int :: "int \<Rightarrow> pystr" where
  "str_int i = (if i < 0 then 45 # digits (nat (- i)) else digits (nat i))"

definition err_message :: pystr where
  "err_message = [226, 353, 160, 239, 184] @ lit '' AI returned invalid JSON. Try again.''"

definition end_message :: "pystr \<Rightarrow> int \<Rightarrow> pystr" where
  "end_message ident n =
     [287, 376, 8240] @ lit '' Correct! The identity was **'' @ ident
     @ lit ''**. You solved it in **'' @ str_int n @ lit ''** questions! '' @ [287, 376, 8240]"

text \<open>
  The two overrides applied to the validator's answer (lines 299 to 307). A pydantic model
  is always true as a condition, so \<^verbatim>\<open>if answer and ...\<close> tests \<^verbatim>\<open>answer\<close> for
  \<^verbatim>\<open>None\<close>.
\<close>

definition override_yes_no :: "(pystr \<Rightarrow> pystr) \<Rightarrow> IdentityAnswer option \<Rightarrow> IdentityAnswer option" where
  "override_yes_no U answer =
     (case answer of
        None \<Rightarrow> None
      | Some a \<Rightarrow>
          if lower U (response a) \<in> set [lit ''yes'', lit ''no'']
          then Some (a\<lparr>is_question := True\<rparr>) else Some a)"

definition override_identity ::
  "(pystr \<Rightarrow> pystr) \<Rightarrow> pystr \<Rightarrow> pystr \<Rightarrow> IdentityAnswer option \<Rightarrow> IdentityAnswer option" where
  "override_identity U ident prompt answer =
     (case answer of
        None \<Rightarrow> None
      | Some a \<Rightarrow>
          if contains (lower U prompt) (lower U ident)
          then Some (a\<lparr>response := lit ''Yes!'', is_correct_guess := True, is_question := False\<rparr>)
          else Some a)"

definition main_overrides ::
  "(pystr \<Rightarrow> pystr) \<Rightarrow> pystr \<Rightarrow> pystr \<Rightarrow> IdentityAnswer option \<Rightarrow> IdentityAnswer option" where
  "main_overrides U ident prompt answer = override_identity U ident prompt (override_yes_no U answer)"

text \<open>The end of a turn once there is an answer (lines 318 to 347).\<close>

definition main_reply :: "session \<Rightarrow> IdentityAnswer \<Rightarrow> session \<times> control" where
  "main_reply st a =
     (let st1 = st\<lparr>messages := messages st @ [(lit ''AI'', response a)]\<rparr>;
          st2 = (if is_correct_guess a
                 then st1\<lparr>question_count := question_count st1 + 1,
                          messages := messages st1 @
                            [(lit ''System'', end_message (identity st1) (question_count st1 + 1))],
                          game_over := True\<rparr>
                 else st1)
      in if game_over st2 then (st2, Rerun)
         else if is_question a
         then (st2\<lparr>question_count := question_count st2 + 1, last_answer := Some a\<rparr>, Rerun)
         else (st2, End))"

text \<open>
  A turn (lines 277 to 347): \<open>prompt\<close> is what the input widget returned, \<open>None\<close> when
  nothing was submitted.
\<close>

definition main_turn ::
  "(pystr \<Rightarrow> pystr) \<Rightarrow> collaborator \<Rightarrow> request list \<Rightarrow> session \<Rightarrow> pystr option
     \<Rightarrow> (session \<times> control) \<times> request list" where
  "main_turn U C hist st prompt =
     (case prompt of
        None \<Rightarrow> ((st, Stop), hist)
      | Some p \<Rightarrow>
          if p = [] then ((st, Stop), hist)
          else
            (let st1 = st\<lparr>messages := messages st @ [(lit ''You'', p)]\<rparr>
             in case ask_identity_ai C hist p (identity st1) 3 (2 / 10) of
                  (Raised e, hist') \<Rightarrow> ((st1, Threw e), hist')
                | (Returned answer, hist') \<Rightarrow>
                    (case main_overrides U (identity st1) p answer of
                       None \<Rightarrow>
                         ((st1\<lparr>messages := messages st1 @ [(lit ''System'', err_message)]\<rparr>,
                           Stop),
                          hist')
                     | Some a \<Rightarrow> (main_reply st1 a, hist'))))"

section \<open>Example dialogues\<close>

text \<open>
  A session as \<^verbatim>\<open>reset_game\<close> leaves it when the identity is Albert Einstein, and the
  text of a reply in the format the system prompt asks for. They are the inputs of the
  concrete runs below.
\<close>

definition example_session :: session where
  "example_session =
     \<lparr>identity_type = Some (lit ''Historical Figure''), custom_details = Some [],
      identity = lit ''Albert Einstein'', question_count = 0, game_over = False,
      setup_complete = True, messages = [(lit ''System'', welcome_message)],
      last_answer = None\<rparr>"

definition reply_text :: "string \<Rightarrow> string \<Rightarrow> string \<Rightarrow> pystr" where
  \<open>reply_text r q g =
     lit ''{"response":"'' @ lit r @ lit ''","is_question":'' @ lit q
     @ lit '',"is_correct_guess":'' @ lit g @ lit ''}''\<close>

text \<open>The reply of the specification's example, an object wrapped in prose.\<close>

definition chatty_reply :: pystr where
  \<open>chatty_reply =
     lit ''Sure! {"response":"yes","is_question":true,"is_correct_guess":false} Hope that helps.''\<close>

text \<open>The same object wrapped in a JSON array instead of prose.\<close>

definition wrapped_reply :: pystr where
  "wrapped_reply = lit ''['' @ reply_text ''yes'' ''true'' ''false'' @ lit '']''"



text \<open>
  The specification's reading of the invariant that all three fields are present and
  correctly typed, applied to the decoded object: a string and two booleans. It is
  compared below with what \<open>model_validate\<close> accepts.
\<close>

definition spec_correctly_typed :: "(pystr \<times> json) list \<Rightarrow> bool" where
  "spec_correctly_typed kvs =
     (case (dict_get kvs (lit ''response''), dict_get kvs (lit ''is_question''),
            dict_get kvs (lit ''is_correct_guess'')) of
        (Some (JStr s), Some (JBool q), Some (JBool g)) \<Rightarrow> True
      | _ \<Rightarrow> False)"

text \<open>A collaborator whose every reply is two blanks.\<close>

definition blank_collaborator :: collaborator where
  "blank_collaborator h = Inr (lit ''  '')"

section \<open>Properties of identity generation\<close>

lemma category_prompt_None:
  "category_prompt t d = None \<longleftrightarrow> t \<notin> category_tags"
  by (simp add: category_prompt_def category_tags_def)

text \<open>
  Claim C8. For a category tag outside the five enumerated ones, \<open>generate_identity\<close>
  returns \<open>None\<close> and the log of requests is unchanged: the collaborator is not called.
\<close>

theorem generate_identity_unrecognized:
  "t \<notin> category_tags \<Longrightarrow> generate_identity C hist t d = (Returned None, hist)"
  using category_prompt_None [of t d] by (simp add: generate_identity_def)

theorem generate_identity_unrecognized_witness:
  "lit ''Animal'' \<notin> category_tags \<and>
   generate_identity (scripted []) [] (lit ''Animal'') [] = (Returned None, [])"
proof -
  have h: "lit ''Animal'' \<notin> category_tags"
    by (simp add: category_tags_def lit_def)
  show ?thesis using h generate_identity_unrecognized [OF h] by simp
qed

lemma generate_loop_three:
  assumes "C (hist @ [req]) = Inr r1"
    and "C (hist @ [req, req]) = Inr r2"
    and "C (hist @ [req, req, req]) = Inr r3"
  shows "generate_loop 3 C hist req raw = (Returned (Some (strip r3)), hist @ [req, req, req])"
proof -
  have three: "(3::nat) = Suc (Suc (Suc 0))" by simp
  show ?thesis unfolding three using assms by (simp add: chat_def)
qed

text \<open>
  Claim C1. For a recognized category tag the loop body runs three times: when the three
  collaborator calls yield \<open>r1\<close>, \<open>r2\<close>, \<open>r3\<close>, exactly three requests (all the same)
  are added to the log, and the result is the trimmed text of the third call, whatever
  the first two calls yielded.
\<close>

theorem generate_identity_last_attempt:
  assumes "t \<in> category_tags"
  shows "\<exists>p. category_prompt t d = Some p \<and>
    (\<forall>r1 r2 r3.
       C (hist @ [generate_request p]) = Inr r1 \<longrightarrow>
       C (hist @ [generate_request p, generate_request p]) = Inr r2 \<longrightarrow>
       C (hist @ [generate_request p, generate_request p, generate_request p]) = Inr r3 \<longrightarrow>
       generate_identity C hist t d =
         (Returned (Some (strip r3)),
          hist @ [generate_request p, generate_request p, generate_request p]))"
proof -
  from assms obtain p where p: "category_prompt t d = Some p"
    using category_prompt_None [of t d] by auto
  show ?thesis
    using p by (auto simp: generate_identity_def generate_loop_three)
qed

theorem generate_identity_last_attempt_witness:
  "lit ''Historical Figure'' \<in> category_tags \<and>
   fst (generate_identity
          (scripted [lit ''Cleopatra'', lit '''', lit '' Ada Lovelace  ''])
          [] (lit ''Historical Figure'') [])
     = Returned (Some (lit ''Ada Lovelace'')) \<and>
   length (snd (generate_identity
          (scripted [lit ''Cleopatra'', lit '''', lit '' Ada Lovelace  ''])
          [] (lit ''Historical Figure'') [])) = 3"
proof -
  let ?C = "scripted [lit ''Cleopatra'', lit '''', lit '' Ada Lovelace  '']"
  have h: "lit ''Historical Figure'' \<in> category_tags"
    by (simp add: category_tags_def)
  from generate_identity_last_attempt [OF h, of "[]" ?C "[]"]
  obtain p where
    run: "\<And>r1 r2 r3. ?C ([] @ [generate_request p]) = Inr r1 \<Longrightarrow>
       ?C ([] @ [generate_request p, generate_request p]) = Inr r2 \<Longrightarrow>
       ?C ([] @ [generate_request p, generate_request p, generate_request p]) = Inr r3 \<Longrightarrow>
       generate_identity ?C [] (lit ''Historical Figure'') [] =
         (Returned (Some (strip r3)),
          [] @ [generate_request p, generate_request p, generate_request p])"
    by blast
  have s: "strip (lit '' Ada Lovelace  '') = lit ''Ada Lovelace''"
    by (simp add: strip_def lit_def isspace_def)
  have "generate_identity ?C [] (lit ''Historical Figure'') [] =
      (Returned (Some (strip (lit '' Ada Lovelace  ''))),
       [] @ [generate_request p, generate_request p, generate_request p])"
    by (rule run) (simp_all add: scripted_def)
  with h s show ?thesis by simp
qed

section \<open>Properties of the overrides\<close>














section \<open>Running the validator on a script\<close>

lemma ask_loop_Return:
  assumes "C (hist @ [req]) = Inr r" and "attempt (strip r) = Return a"
  shows "ask_loop (Suc n) C hist req = (Returned (Some a), hist @ [req])"
  using assms by (simp add: chat_def)

lemma ask_loop_Raise:
  assumes "C (hist @ [req]) = Inr r" and "attempt (strip r) = Raise e"
  shows "ask_loop (Suc n) C hist req = (Raised e, hist @ [req])"
  using assms by (simp add: chat_def)

lemma ask_loop_Pass:
  assumes "C (hist @ [req]) = Inr r" and "attempt (strip r) = Pass"
  shows "ask_loop (Suc n) C hist req = ask_loop n C (hist @ [req]) req"
  using assms by (simp add: chat_def)

lemma scripted_first: "scripted (r # rs) [req] = Inr r"
  by (simp add: scripted_def)

lemma ask_scripted_Return:
  assumes "attempt (strip r) = Return a"
  shows "fst (ask_identity_ai (scripted (r # rs)) [] p i 3 t) = Returned (Some a)"
proof -
  have three: "nat 3 = Suc 2" by simp
  show ?thesis
    unfolding ask_identity_ai_def three
    by (subst ask_loop_Return [where r = r and a = a]) (simp_all add: scripted_first assms)
qed

lemma ask_scripted_Raise:
  assumes "attempt (strip r) = Raise e"
  shows "fst (ask_identity_ai (scripted (r # rs)) [] p i 3 t) = Raised e"
proof -
  have three: "nat 3 = Suc 2" by simp
  show ?thesis
    unfolding ask_identity_ai_def three
    by (subst ask_loop_Raise [where r = r and e = e]) (simp_all add: scripted_first assms)
qed

lemma ask_scripted_Pass3:
  assumes "attempt (strip r1) = Pass" and "attempt (strip r2) = Pass" and "attempt (strip r3) = Pass"
  shows "fst (ask_identity_ai (scripted [r1, r2, r3]) [] p i 3 t) = Returned None"
  using assms by (simp add: ask_identity_ai_def eval_nat_numeral chat_def scripted_def)

lemma pair_fst: "fst x = a \<Longrightarrow> x = (a, snd x)"
  by (cases x) simp

lemma identity_example: "identity example_session = lit ''Albert Einstein''"
  by (simp add: example_session_def)

lemma strip_cannot: "strip (lit ''I cannot answer that.'') = lit ''I cannot answer that.''"
  by (simp add: strip_def lit_def isspace_def)

lemma attempt_cannot: "attempt (lit ''I cannot answer that.'') = Pass"
  by code_simp

lemma strip_reply_text: "strip (reply_text r q g) = reply_text r q g"
  by (simp add: strip_def lit_def isspace_def reply_text_def)

lemma attempt_yes:
  "attempt (reply_text ''yes'' ''true'' ''false'') =
     Return \<lparr>response = lit ''yes'', is_question = True, is_correct_guess = False\<rparr>"
  by code_simp

lemma attempt_yes_i_am:
  "attempt (reply_text ''Yes, I am!'' ''true'' ''true'') =
     Return \<lparr>response = lit ''Yes, I am!'', is_question = True, is_correct_guess = True\<rparr>"
  by code_simp

section \<open>Properties of a turn\<close>

lemma main_turn_unfold:
  assumes "p \<noteq> []"
    and "ask_identity_ai C hist p (identity st) 3 (2 / 10) = (Returned answer, hist')"
  shows "main_turn U C hist st (Some p) =
    (case main_overrides U (identity st) p answer of
       None \<Rightarrow>
         ((st\<lparr>messages := messages st @ [(lit ''You'', p), (lit ''System'', err_message)]\<rparr>, Stop),
          hist')
     | Some a \<Rightarrow> (main_reply (st\<lparr>messages := messages st @ [(lit ''You'', p)]\<rparr>) a, hist'))"
  using assms by (simp add: main_turn_def Let_def split: option.splits)

text \<open>
  Claim C10. When the validator returns \<open>None\<close>, the turn adds the player's message and
  the one error message to the transcript and stops; nothing else of the session changes
  (question counter, game-over flag and identity are as before). The input is arbitrary:
  it may contain the identity, and the turn is still not a correct guess.
\<close>

theorem main_turn_no_answer:
  assumes "p \<noteq> []"
    and "ask_identity_ai C hist p (identity st) 3 (2 / 10) = (Returned None, hist')"
  shows "main_turn U C hist st (Some p) =
           ((st\<lparr>messages := messages st @ [(lit ''You'', p), (lit ''System'', err_message)]\<rparr>,
             Stop), hist')"
  using main_turn_unfold [OF assms]
  by (simp add: main_overrides_def override_identity_def override_yes_no_def)

theorem main_turn_no_answer_witness:
  "lit ''Is it Albert Einstein?'' \<noteq> [] \<and>
   fst (ask_identity_ai
         (scripted [lit ''I cannot answer that.'', lit ''I cannot answer that.'', lit ''I cannot answer that.''])
         [] (lit ''Is it Albert Einstein?'') (identity example_session) 3 (2 / 10)) = Returned None \<and>
   fst (main_turn (\<lambda>s. s)
         (scripted [lit ''I cannot answer that.'', lit ''I cannot answer that.'', lit ''I cannot answer that.''])
         [] example_session (Some (lit ''Is it Albert Einstein?''))) =
     (example_session\<lparr>messages := messages example_session @
        [(lit ''You'', lit ''Is it Albert Einstein?''), (lit ''System'', err_message)]\<rparr>, Stop)"
proof -
  let ?C = "scripted [lit ''I cannot answer that.'', lit ''I cannot answer that.'', lit ''I cannot answer that.'']"
  let ?p = "lit ''Is it Albert Einstein?''"
  have ne: "?p \<noteq> []" by (simp add: lit_def)
  have a: "fst (ask_identity_ai ?C [] ?p (identity example_session) 3 (2 / 10)) = Returned None"
    by (rule ask_scripted_Pass3) (simp_all add: strip_cannot attempt_cannot)
  from main_turn_no_answer [OF ne pair_fst [OF a]] ne a show ?thesis by simp
qed

text \<open>
  Claim C9, as stated, fails in two ways. After the give-up button the game is over but
  the input box is still there: a question whose answer has the question flag true is
  added to the transcript and the counter stays as it is, since the script reruns before
  the counter is reached. And a turn whose answer has the question flag and the
  correct-guess flag both true adds three entries: the player's, the reply and the end
  message of the system.
\<close>

theorem main_turn_question_counterexample:
  "fst (ask_identity_ai (scripted [reply_text ''yes'' ''true'' ''false'']) []
         (lit ''Are you alive today?'') (identity (fst (main_give_up example_session))) 3 (2 / 10)) =
     Returned (Some \<lparr>response = lit ''yes'', is_question = True, is_correct_guess = False\<rparr>) \<and>
   question_count (fst (fst (main_turn (\<lambda>s. s) (scripted [reply_text ''yes'' ''true'' ''false'']) []
         (fst (main_give_up example_session)) (Some (lit ''Are you alive today?''))))) =
     question_count (fst (main_give_up example_session)) \<and>
   fst (ask_identity_ai (scripted [reply_text ''Yes, I am!'' ''true'' ''true'']) []
         (lit ''Are you Einstein?'') (identity example_session) 3 (2 / 10)) =
     Returned (Some \<lparr>response = lit ''Yes, I am!'', is_question = True, is_correct_guess = True\<rparr>) \<and>
   messages (fst (fst (main_turn (\<lambda>s. s) (scripted [reply_text ''Yes, I am!'' ''true'' ''true'']) []
         example_session (Some (lit ''Are you Einstein?''))))) =
     messages example_session @
       [(lit ''You'', lit ''Are you Einstein?''), (lit ''AI'', lit ''Yes, I am!''),
        (lit ''System'', end_message (lit ''Albert Einstein'') 1)]"
proof -
  let ?over = "fst (main_give_up example_session)"
  let ?C1 = "scripted [reply_text ''yes'' ''true'' ''false'']"
  let ?p1 = "lit ''Are you alive today?''"
  let ?a1 = "\<lparr>response = lit ''yes'', is_question = True, is_correct_guess = False\<rparr>"
  let ?C2 = "scripted [reply_text ''Yes, I am!'' ''true'' ''true'']"
  let ?p2 = "lit ''Are you Einstein?''"
  let ?a2 = "\<lparr>response = lit ''Yes, I am!'', is_question = True, is_correct_guess = True\<rparr>"
  have ne1: "?p1 \<noteq> []" and ne2: "?p2 \<noteq> []" by (simp_all add: lit_def)
  have r1: "fst (ask_identity_ai ?C1 [] ?p1 (identity ?over) 3 (2 / 10)) = Returned (Some ?a1)"
    by (rule ask_scripted_Return) (simp add: strip_reply_text attempt_yes)
  have r2: "fst (ask_identity_ai ?C2 [] ?p2 (identity example_session) 3 (2 / 10)) = Returned (Some ?a2)"
    by (rule ask_scripted_Return) (simp add: strip_reply_text attempt_yes_i_am)
  have o1: "main_overrides (\<lambda>s. s) (identity ?over) ?p1 (Some ?a1) = Some ?a1"
    unfolding main_give_up_def example_session_def by code_simp
  have o2: "main_overrides (\<lambda>s. s) (identity example_session) ?p2 (Some ?a2) = Some ?a2"
    unfolding example_session_def by code_simp
  have c1: "question_count (fst (fst (main_turn (\<lambda>s. s) ?C1 [] ?over (Some ?p1)))) = question_count ?over"
    using main_turn_unfold [OF ne1 pair_fst [OF r1], of "\<lambda>s. s"] o1
    by (simp add: main_reply_def main_give_up_def)
  have c2: "messages (fst (fst (main_turn (\<lambda>s. s) ?C2 [] example_session (Some ?p2)))) =
     messages example_session @
       [(lit ''You'', ?p2), (lit ''AI'', lit ''Yes, I am!''),
        (lit ''System'', end_message (lit ''Albert Einstein'') 1)]"
    using main_turn_unfold [OF ne2 pair_fst [OF r2], of "\<lambda>s. s"] o2
    by (simp add: main_reply_def example_session_def)
  from r1 c1 r2 c2 show ?thesis by blast
qed

text \<open>
  Claim C9, amended. In a turn that starts while the game is not over and in which the
  validator returns an answer with the question flag true, the counter goes up by exactly
  one, and the transcript gains the player's message and the reply (after the overrides),
  followed by the end message exactly when the turn is a correct guess.
\<close>

theorem main_turn_question:
  assumes "p \<noteq> []"
    and "\<not> game_over st"
    and "ask_identity_ai C hist p (identity st) 3 (2 / 10) = (Returned (Some a), hist')"
    and "is_question a"
  shows "\<exists>st' b.
     main_turn U C hist st (Some p) = ((st', Rerun), hist') \<and>
     main_overrides U (identity st) p (Some a) = Some b \<and>
     question_count st' = question_count st + 1 \<and>
     messages st' =
       messages st @ [(lit ''You'', p), (lit ''AI'', response b)]
         @ (if is_correct_guess b
            then [(lit ''System'', end_message (identity st) (question_count st + 1))]
            else [])"
proof -
  have "\<exists>b. main_overrides U (identity st) p (Some a) = Some b"
    by (simp add: main_overrides_def override_identity_def override_yes_no_def)
  then obtain b where b: "main_overrides U (identity st) p (Some a) = Some b" ..
  have q: "is_correct_guess b \<or> is_question b"
    using b assms(4)
    by (auto simp: main_overrides_def override_identity_def override_yes_no_def split: if_splits)
  have "main_turn U C hist st (Some p) =
          (main_reply (st\<lparr>messages := messages st @ [(lit ''You'', p)]\<rparr>) b, hist')"
    using main_turn_unfold [OF assms(1) assms(3)] b by simp
  with b q assms(2) show ?thesis
    by (cases "is_correct_guess b") (auto simp: main_reply_def Let_def)
qed

theorem main_turn_question_witness:
  "lit ''Are you alive today?'' \<noteq> [] \<and> \<not> game_over example_session \<and>
   fst (ask_identity_ai (scripted [reply_text ''yes'' ''true'' ''false'']) []
         (lit ''Are you alive today?'') (identity example_session) 3 (2 / 10)) =
     Returned (Some \<lparr>response = lit ''yes'', is_question = True, is_correct_guess = False\<rparr>) \<and>
   is_question \<lparr>response = lit ''yes'', is_question = True, is_correct_guess = False\<rparr> \<and>
   snd (fst (main_turn (\<lambda>s. s) (scripted [reply_text ''yes'' ''true'' ''false'']) []
         example_session (Some (lit ''Are you alive today?'')))) = Rerun \<and>
   question_count (fst (fst (main_turn (\<lambda>s. s) (scripted [reply_text ''yes'' ''true'' ''false'']) []
         example_session (Some (lit ''Are you alive today?''))))) = 1 \<and>
   messages (fst (fst (main_turn (\<lambda>s. s) (scripted [reply_text ''yes'' ''true'' ''false'']) []
         example_session (Some (lit ''Are you alive today?''))))) =
     [(lit ''System'', welcome_message), (lit ''You'', lit ''Are you alive today?''),
      (lit ''AI'', lit ''yes'')]"
proof -
  let ?C = "scripted [reply_text ''yes'' ''true'' ''false'']"
  let ?p = "lit ''Are you alive today?''"
  let ?a = "\<lparr>response = lit ''yes'', is_question = True, is_correct_guess = False\<rparr>"
  have ne: "?p \<noteq> []" by (simp add: lit_def)
  have g: "\<not> game_over example_session" by (simp add: example_session_def)
  have r: "fst (ask_identity_ai ?C [] ?p (identity example_session) 3 (2 / 10)) = Returned (Some ?a)"
    by (rule ask_scripted_Return) (simp add: strip_reply_text attempt_yes)
  have q: "is_question ?a" by simp
  have o: "main_overrides (\<lambda>s. s) (identity example_session) ?p (Some ?a) = Some ?a"
    unfolding example_session_def by code_simp
  from main_turn_question [OF ne g pair_fst [OF r] q, of "\<lambda>s. s"] o
  obtain st' where
    "main_turn (\<lambda>s. s) ?C [] example_session (Some ?p) =
       ((st', Rerun), snd (ask_identity_ai ?C [] ?p (identity example_session) 3 (2 / 10)))"
    and "question_count st' = question_count example_session + 1"
    and "messages st' = messages example_session @ [(lit ''You'', ?p), (lit ''AI'', lit ''yes'')]"
    by auto
  with ne g r show ?thesis by (simp add: example_session_def)
qed

section \<open>Properties of \<^verbatim>\<open>reset_game\<close>\<close>

lemma generate_loop_Suc:
  "C (hist @ [req]) = Inr t \<Longrightarrow>
     generate_loop (Suc n) C hist req raw = generate_loop n C (hist @ [req]) req (Some (strip t))"
  by (simp add: chat_def)

lemma generate_loop_total:
  assumes "\<forall>h. \<exists>t. C h = Inr t"
  shows "\<exists>r hist'. generate_loop (Suc n) C hist req raw = (Returned (Some r), hist')"
proof (induction n arbitrary: hist raw)
  case 0
  from assms obtain t where "C (hist @ [req]) = Inr t" by blast
  then show ?case by (simp add: chat_def)
next
  case (Suc n)
  from assms obtain t where t: "C (hist @ [req]) = Inr t" by blast
  have "generate_loop (Suc (Suc n)) C hist req raw =
          generate_loop (Suc n) C (hist @ [req]) req (Some (strip t))"
    using t by (rule generate_loop_Suc)
  with Suc.IH [of "hist @ [req]" "Some (strip t)"] show ?case
    by (simp only:)
qed

lemma generate_identity_total:
  assumes "\<forall>h. \<exists>t. C h = Inr t"
  shows "\<exists>g hist'. generate_identity C hist t d = (Returned g, hist')"
proof (cases "category_prompt t d")
  case None
  then show ?thesis by (simp add: generate_identity_def)
next
  case (Some p)
  have three: "(3::nat) = Suc 2" by simp
  from generate_loop_total [OF assms, of 2 hist "generate_request p" None]
  obtain r hist' where "generate_loop 3 C hist (generate_request p) None = (Returned (Some r), hist')"
    unfolding three by blast
  with Some show ?thesis by (simp add: generate_identity_def)
qed

text \<open>
  Claim C5. Whatever category tag the session holds (one of the five, an unrecognized
  one, or none), when the collaborator does not raise, \<open>reset_game\<close> returns and the
  identity it stores is not empty: it is the generated text when that is not empty, and
  \<^verbatim>\<open>Albert Einstein\<close> when the generator returned \<open>None\<close> or the empty string.
\<close>

theorem reset_game_identity_nonempty:
  assumes "\<forall>h. \<exists>t. C h = Inr t"
  shows "\<exists>g st' hist'.
    generate_identity C hist
       (case identity_type st of None \<Rightarrow> lit ''Random Character'' | Some t \<Rightarrow> t)
       (case custom_details st of None \<Rightarrow> [] | Some d \<Rightarrow> d) = (Returned g, hist') \<and>
    reset_game C hist st = (Returned st', hist') \<and>
    identity st' \<noteq> [] \<and>
    (g = None \<or> g = Some [] \<longrightarrow> identity st' = lit ''Albert Einstein'') \<and>
    (\<forall>s. g = Some s \<and> s \<noteq> [] \<longrightarrow> identity st' = s)"
proof -
  let ?t = "case identity_type st of None \<Rightarrow> lit ''Random Character'' | Some t \<Rightarrow> t"
  let ?d = "case custom_details st of None \<Rightarrow> [] | Some d \<Rightarrow> d"
  from generate_identity_total [OF assms, of hist ?t ?d]
  obtain g hist' where g: "generate_identity C hist ?t ?d = (Returned g, hist')" by blast
  have ne: "lit ''Albert Einstein'' \<noteq> []" by (simp add: lit_def)
  show ?thesis
    using g ne by (cases g) (auto simp: reset_game_def)
qed


theorem reset_game_identity_nonempty_witness:
  "(\<forall>h. \<exists>t. blank_collaborator h = Inr t) \<and>
   fst (generate_identity blank_collaborator [] (lit ''Historical Figure'') []) = Returned (Some []) \<and>
   (\<exists>st'. fst (reset_game blank_collaborator [] example_session) = Returned st' \<and>
      identity st' = lit ''Albert Einstein'' \<and> identity st' \<noteq> [])"
proof -
  have h: "\<forall>h. \<exists>t. blank_collaborator h = Inr t"
    by (simp add: blank_collaborator_def)
  have s: "strip (lit ''  '') = []"
    by (simp add: strip_def lit_def isspace_def)
  have t: "lit ''Historical Figure'' \<in> category_tags"
    by (simp add: category_tags_def)
  have g: "fst (generate_identity blank_collaborator [] (lit ''Historical Figure'') []) = Returned (Some [])"
    using t category_prompt_None [of "lit ''Historical Figure''" "[]"]
    by (auto simp: generate_identity_def eval_nat_numeral chat_def blank_collaborator_def s)
  from reset_game_identity_nonempty [OF h, of "[]" example_session] g
  show ?thesis using h by (auto simp: example_session_def)
qed

section \<open>Properties of the answer validator\<close>

lemma JSON_RE_search_Some:
  assumes "JSON_RE_search raw = Some m"
  shows "\<exists>pre mid post. raw = pre @ m @ post \<and> m = [123] @ mid @ [125] \<and>
           123 \<notin> set pre \<and> 125 \<notin> set mid"
proof -
  let ?pre = "takeWhile (\<lambda>c. c \<noteq> 123) raw"
  from assms obtain c rest where d: "dropWhile (\<lambda>c. c \<noteq> 123) raw = c # rest"
    and r: "125 \<in> set rest" and m: "m = c # takeWhile (\<lambda>c. c \<noteq> 125) rest @ [125]"
    by (auto simp: JSON_RE_search_def split: list.splits if_splits)
  from d have c: "c = 123"
    using hd_dropWhile [of "\<lambda>c. c \<noteq> 123" raw] by force
  let ?mid = "takeWhile (\<lambda>c. c \<noteq> 125) rest"
  from r obtain post where p: "dropWhile (\<lambda>c. c \<noteq> 125) rest = 125 # post"
    using hd_dropWhile [of "\<lambda>c. c \<noteq> 125" rest]
    by (cases "dropWhile (\<lambda>c. c \<noteq> 125) rest") (auto simp: dropWhile_eq_Nil_conv)
  have "raw = ?pre @ c # rest"
    using d takeWhile_dropWhile_id [of "\<lambda>c. c \<noteq> 123" raw] by simp
  also have "rest = ?mid @ 125 # post"
    using p takeWhile_dropWhile_id [of "\<lambda>c. c \<noteq> 125" rest] by simp
  finally have "raw = ?pre @ m @ post" using m by simp
  moreover have "123 \<notin> set ?pre" using set_takeWhileD by fastforce
  moreover have "125 \<notin> set ?mid" using set_takeWhileD by fastforce
  ultimately show ?thesis using m c by auto
qed

lemma JSON_RE_search_None:
  "JSON_RE_search raw = None \<longleftrightarrow> \<not> (\<exists>pre mid post. raw = pre @ [123] @ mid @ [125] @ post)"
proof
  assume n: "JSON_RE_search raw = None"
  show "\<not> (\<exists>pre mid post. raw = pre @ [123] @ mid @ [125] @ post)"
  proof
    assume "\<exists>pre mid post. raw = pre @ [123] @ mid @ [125] @ post"
    then obtain pre mid post where raw: "raw = pre @ [123] @ mid @ [125] @ post" by blast
    let ?pre = "takeWhile (\<lambda>c. c \<noteq> 123) pre"
    show False
    proof (cases "123 \<in> set pre")
      case True
      then obtain rest where d: "dropWhile (\<lambda>c. c \<noteq> 123) pre = 123 # rest"
        using hd_dropWhile [of "\<lambda>c. c \<noteq> 123" pre]
        by (cases "dropWhile (\<lambda>c. c \<noteq> 123) pre") (auto simp: dropWhile_eq_Nil_conv)
      have "dropWhile (\<lambda>c. c \<noteq> 123) raw = 123 # rest @ [123] @ mid @ [125] @ post"
        using True d by (simp add: raw dropWhile_append1)
      with n show False by (simp add: JSON_RE_search_def)
    next
      case False
      then have "\<And>x. x \<in> set pre \<Longrightarrow> x \<noteq> 123" by auto
      then have "dropWhile (\<lambda>c. c \<noteq> 123) (pre @ [123] @ mid @ [125] @ post) =
          dropWhile (\<lambda>c. c \<noteq> 123) ([123] @ mid @ [125] @ post)"
        by (rule dropWhile_append2)
      then have "dropWhile (\<lambda>c. c \<noteq> 123) raw = 123 # mid @ [125] @ post"
        by (simp add: raw)
      with n show False by (simp add: JSON_RE_search_def)
    qed
  qed
next
  assume a: "\<not> (\<exists>pre mid post. raw = pre @ [123] @ mid @ [125] @ post)"
  show "JSON_RE_search raw = None"
  proof (cases "JSON_RE_search raw")
    case None
    then show ?thesis .
  next
    case (Some m)
    from JSON_RE_search_Some [OF Some]
    obtain pre mid post where "raw = pre @ m @ post" and "m = [123] @ mid @ [125]" by blast
    then have "raw = pre @ [123] @ mid @ [125] @ post" by simp
    with a show ?thesis by blast
  qed
qed

lemma attempt_caught:
  assumes "load_answer raw = Inl e" and "caught e"
  shows "attempt raw =
     (case JSON_RE_search raw of
        None \<Rightarrow> Pass
      | Some m \<Rightarrow>
          (case load_answer m of
             Inr a \<Rightarrow> Return a
           | Inl e' \<Rightarrow> if caught e' then Pass else Raise e'))"
  using assms by (auto simp: attempt_def split: option.splits sum.splits)

lemma load_chatty: "load_answer chatty_reply = Inl JSONDecodeError"
  unfolding chatty_reply_def by code_simp

lemma search_chatty:
  "JSON_RE_search chatty_reply = Some (reply_text ''yes'' ''true'' ''false'')"
  unfolding chatty_reply_def reply_text_def by code_simp

lemma strip_chatty: "strip chatty_reply = chatty_reply"
  by (simp add: strip_def lit_def isspace_def chatty_reply_def)

lemma attempt_chatty:
  "attempt chatty_reply =
     Return \<lparr>response = lit ''yes'', is_question = True, is_correct_guess = False\<rparr>"
  unfolding chatty_reply_def by code_simp

lemma ask_chatty:
  "fst (ask_identity_ai (scripted [chatty_reply]) [] p i 3 t) =
     Returned (Some \<lparr>response = lit ''yes'', is_question = True, is_correct_guess = False\<rparr>)"
  by (rule ask_scripted_Return) (simp add: strip_chatty attempt_chatty)

lemma strip_wrapped: "strip wrapped_reply = wrapped_reply"
  by (simp add: strip_def lit_def isspace_def wrapped_reply_def reply_text_def)

text \<open>
  Claim C4 does not hold of the code. The fallback runs only when the fast path raised
  \<^verbatim>\<open>JSONDecodeError\<close> or \<^verbatim>\<open>ValidationError\<close> (lemma \<open>attempt_caught\<close>). A reply
  that is valid JSON but no object fails the fast path at the unpacking with \<^verbatim>\<open>**\<close>,
  with a \<^verbatim>\<open>TypeError\<close> that the \<^verbatim>\<open>except\<close> clause does not catch. For the object
  of the specification's example wrapped in a JSON array, decoding the whole text into
  the model fails, the search would find the object, and the object validates; yet the
  attempt raises, and so does the validator at its first call, although the next reply
  is the object itself. For the reply of the specification's example, which wraps the
  object in prose and is not JSON as a whole, the fallback does recover the answer.
\<close>

theorem fallback_skipped_on_TypeError:
  "json_loads wrapped_reply =
     Some (JList [JDict [(lit ''response'', JStr (lit ''yes'')), (lit ''is_question'', JBool True),
                         (lit ''is_correct_guess'', JBool False)]]) \<and>
   load_answer wrapped_reply = Inl TypeError \<and>
   JSON_RE_search wrapped_reply = Some (reply_text ''yes'' ''true'' ''false'') \<and>
   load_answer (reply_text ''yes'' ''true'' ''false'') =
     Inr \<lparr>response = lit ''yes'', is_question = True, is_correct_guess = False\<rparr> \<and>
   attempt wrapped_reply = Raise TypeError \<and>
   fst (ask_identity_ai (scripted [wrapped_reply, reply_text ''yes'' ''true'' ''false'']) []
          (lit ''Are you alive today?'') (lit ''Albert Einstein'') 3 (2 / 10)) = Raised TypeError \<and>
   load_answer chatty_reply = Inl JSONDecodeError \<and>
   JSON_RE_search chatty_reply = Some (reply_text ''yes'' ''true'' ''false'') \<and>
   fst (ask_identity_ai (scripted [chatty_reply]) []
          (lit ''Are you alive today?'') (lit ''Albert Einstein'') 3 (2 / 10)) =
     Returned (Some \<lparr>response = lit ''yes'', is_question = True, is_correct_guess = False\<rparr>)"
proof -
  have j: "json_loads wrapped_reply =
     Some (JList [JDict [(lit ''response'', JStr (lit ''yes'')), (lit ''is_question'', JBool True),
                         (lit ''is_correct_guess'', JBool False)]])"
    unfolding wrapped_reply_def by code_simp
  have l: "load_answer wrapped_reply = Inl TypeError"
    unfolding wrapped_reply_def by code_simp
  have s: "JSON_RE_search wrapped_reply = Some (reply_text ''yes'' ''true'' ''false'')"
    unfolding wrapped_reply_def by code_simp
  have i: "load_answer (reply_text ''yes'' ''true'' ''false'') =
     Inr \<lparr>response = lit ''yes'', is_question = True, is_correct_guess = False\<rparr>"
    by code_simp
  have a: "attempt wrapped_reply = Raise TypeError"
    unfolding wrapped_reply_def by code_simp
  have r: "fst (ask_identity_ai (scripted [wrapped_reply, reply_text ''yes'' ''true'' ''false'']) []
          (lit ''Are you alive today?'') (lit ''Albert Einstein'') 3 (2 / 10)) = Raised TypeError"
    by (rule ask_scripted_Raise) (simp add: strip_wrapped a)
  from j l s i a r load_chatty search_chatty ask_chatty show ?thesis by blast
qed

subsection \<open>What a returned answer was built from\<close>

lemma attempt_Return:
  assumes "attempt raw = Return a"
  shows "\<exists>text kvs. (text = raw \<or> JSON_RE_search raw = Some text) \<and>
           json_loads text = Some (JDict kvs) \<and> model_validate kvs = Some a"
proof -
  have la: "\<And>text. load_answer text = Inr a \<Longrightarrow>
      \<exists>kvs. json_loads text = Some (JDict kvs) \<and> model_validate kvs = Some a"
    by (auto simp: load_answer_def split: option.splits json.splits)
  from assms have "load_answer raw = Inr a \<or>
      (\<exists>m. JSON_RE_search raw = Some m \<and> load_answer m = Inr a)"
    by (auto simp: attempt_def split: sum.splits option.splits if_splits)
  with la show ?thesis by blast
qed

lemma ask_loop_Returned:
  assumes "ask_loop n C hist req = (Returned (Some a), hist')"
  shows "\<exists>h content. C h = Inr content \<and> attempt (strip content) = Return a"
  using assms
proof (induction n arbitrary: hist)
  case 0
  then show ?case by simp
next
  case (Suc n)
  show ?case
  proof (cases "C (hist @ [req])")
    case (Inl e)
    with Suc.prems show ?thesis by (simp add: chat_def)
  next
    case (Inr content)
    show ?thesis
    proof (cases "attempt (strip content)")
      case (Return b)
      with Inr Suc.prems have "b = a" by (simp add: chat_def)
      with Inr Return show ?thesis by blast
    next
      case (Raise e)
      with Inr Suc.prems show ?thesis by (simp add: chat_def)
    next
      case Pass
      with Inr Suc.prems have "ask_loop n C (hist @ [req]) req = (Returned (Some a), hist')"
        by (simp add: chat_def)
      then show ?thesis by (rule Suc.IH)
    qed
  qed
qed

lemma model_validate_Some:
  assumes "model_validate kvs = Some a"
  shows "dict_get kvs (lit ''response'') = Some (JStr (response a)) \<and>
         (\<exists>q. dict_get kvs (lit ''is_question'') = Some q \<and> validate_bool q = Some (is_question a)) \<and>
         (\<exists>g. dict_get kvs (lit ''is_correct_guess'') = Some g \<and>
              validate_bool g = Some (is_correct_guess a))"
proof -
  from assms obtain r q g r' q' g' where
    r: "dict_get kvs (lit ''response'') = Some r" and q: "dict_get kvs (lit ''is_question'') = Some q"
    and g: "dict_get kvs (lit ''is_correct_guess'') = Some g"
    and v: "validate_str r = Some r'" "validate_bool q = Some q'" "validate_bool g = Some g'"
    and a: "a = \<lparr>response = r', is_question = q', is_correct_guess = g'\<rparr>"
    by (auto simp: model_validate_def split: option.splits)
  from v(1) have "r = JStr r'" by (cases r) simp_all
  with r q g v a show ?thesis by simp
qed

lemma model_validate_None:
  assumes "dict_get kvs (lit ''response'') = None \<or>
           dict_get kvs (lit ''is_question'') = None \<or>
           dict_get kvs (lit ''is_correct_guess'') = None \<or>
           (\<exists>v. dict_get kvs (lit ''response'') = Some v \<and> validate_str v = None) \<or>
           (\<exists>v. dict_get kvs (lit ''is_question'') = Some v \<and> validate_bool v = None) \<or>
           (\<exists>v. dict_get kvs (lit ''is_correct_guess'') = Some v \<and> validate_bool v = None)"
  shows "model_validate kvs = None"
  using assms by (auto simp: model_validate_def split: option.splits)

text \<open>
  Claim C7 does not hold of the code. The model class is announced as strict schema
  enforcement (line 16) and the system prompt asks for \<^verbatim>\<open>true|false\<close> flags, but the
  class sets no strict configuration, so validation converts other values to booleans.
  A reply whose \<^verbatim>\<open>is_question\<close> is the string \<^verbatim>\<open>"yes"\<close> and whose
  \<^verbatim>\<open>is_correct_guess\<close> is the number 0 decodes to an object whose flags are not
  booleans, and the validator returns an answer built from it.
\<close>

theorem validator_accepts_untyped_flags:
  \<open>json_loads (reply_text ''ok'' ''"yes"'' ''0'') =
     Some (JDict [(lit ''response'', JStr (lit ''ok'')), (lit ''is_question'', JStr (lit ''yes'')),
                  (lit ''is_correct_guess'', JInt 0)]) \<and>
   \<not> spec_correctly_typed
        [(lit ''response'', JStr (lit ''ok'')), (lit ''is_question'', JStr (lit ''yes'')),
         (lit ''is_correct_guess'', JInt 0)] \<and>
   fst (ask_identity_ai (scripted [reply_text ''ok'' ''"yes"'' ''0'']) []
          (lit ''Are you alive today?'') (lit ''Albert Einstein'') 3 (2 / 10)) =
     Returned (Some \<lparr>response = lit ''ok'', is_question = True, is_correct_guess = False\<rparr>)\<close>
proof -
  have j: \<open>json_loads (reply_text ''ok'' ''"yes"'' ''0'') =
     Some (JDict [(lit ''response'', JStr (lit ''ok'')), (lit ''is_question'', JStr (lit ''yes'')),
                  (lit ''is_correct_guess'', JInt 0)])\<close>
    by code_simp
  have t: "\<not> spec_correctly_typed
        [(lit ''response'', JStr (lit ''ok'')), (lit ''is_question'', JStr (lit ''yes'')),
         (lit ''is_correct_guess'', JInt 0)]"
    by code_simp
  have a: \<open>attempt (reply_text ''ok'' ''"yes"'' ''0'') =
      Return \<lparr>response = lit ''ok'', is_question = True, is_correct_guess = False\<rparr>\<close>
    by code_simp
  have r: \<open>fst (ask_identity_ai (scripted [reply_text ''ok'' ''"yes"'' ''0'']) []
          (lit ''Are you alive today?'') (lit ''Albert Einstein'') 3 (2 / 10)) =
     Returned (Some \<lparr>response = lit ''ok'', is_question = True, is_correct_guess = False\<rparr>)\<close>
    by (rule ask_scripted_Return) (simp add: strip_reply_text a)
  from j t r show ?thesis by blast
qed

text \<open>
  What does hold of every answer that the validator returns: it was built from a decoded
  JSON object, read from the trimmed text of a reply of the collaborator or from its
  first brace-delimited part, in which all three keys are present, \<^verbatim>\<open>response\<close> is a
  JSON string (the answer's reply), and each flag is a value that the lax conversion
  \<open>validate_bool\<close> turns into the answer's flag. An object that lacks a key, or whose
  reply is no string, or one of whose flags is not convertible, is never returned.
\<close>

lemma validated_answer_provenance:
  assumes "ask_identity_ai C hist user_input ident max_retries temp = (Returned (Some a), hist')"
  shows "\<exists>h content text kvs q g.
     C h = Inr content \<and>
     (text = strip content \<or> JSON_RE_search (strip content) = Some text) \<and>
     json_loads text = Some (JDict kvs) \<and>
     dict_get kvs (lit ''response'') = Some (JStr (response a)) \<and>
     dict_get kvs (lit ''is_question'') = Some q \<and> validate_bool q = Some (is_question a) \<and>
     dict_get kvs (lit ''is_correct_guess'') = Some g \<and> validate_bool g = Some (is_correct_guess a)"
proof -
  from assms obtain h content where c: "C h = Inr content"
    and at: "attempt (strip content) = Return a"
    by (auto simp: ask_identity_ai_def dest: ask_loop_Returned)
  from attempt_Return [OF at] obtain s kvs where
    t: "s = strip content \<or> JSON_RE_search (strip content) = Some s"
    and j: "json_loads s = Some (JDict kvs)" and m: "model_validate kvs = Some a"
    by blast
  from model_validate_Some [OF m] c t j show ?thesis by blast
qed

subsection \<open>Calls and exceptions\<close>

lemma ask_loop_calls:
  "length (snd (ask_loop n C hist req)) \<le> length hist + n"
proof (induction n arbitrary: hist)
  case 0
  then show ?case by simp
next
  case (Suc n)
  show ?case
  proof (cases "C (hist @ [req])")
    case (Inl e)
    then show ?thesis by (simp add: chat_def)
  next
    case (Inr content)
    show ?thesis
    proof (cases "attempt (strip content)")
      case Pass
      with Inr Suc.IH [of "hist @ [req]"] show ?thesis by (simp add: chat_def)
    qed (use Inr in \<open>simp_all add: chat_def\<close>)
  qed
qed

lemma ask_identity_ai_calls:
  "length (snd (ask_identity_ai C hist user_input ident max_retries temp))
     \<le> length hist + nat max_retries"
  unfolding ask_identity_ai_def by (rule ask_loop_calls)

lemma attempt_no_raise:
  assumes "load_answer raw = Inl e" and "caught e"
    and "JSON_RE_search raw = None \<or>
         (\<exists>m e'. JSON_RE_search raw = Some m \<and> load_answer m = Inl e' \<and> caught e')"
  shows "attempt raw = Pass"
  using assms by (auto simp: attempt_def)

lemma ask_loop_all_Pass:
  assumes "\<forall>h. \<exists>content. C h = Inr content \<and> attempt (strip content) = Pass"
  shows "ask_loop n C hist req = (Returned None, hist @ replicate n req)"
proof (induction n arbitrary: hist)
  case 0
  then show ?case by simp
next
  case (Suc n)
  from assms obtain content where "C (hist @ [req]) = Inr content"
    and "attempt (strip content) = Pass" by blast
  then have "ask_loop (Suc n) C hist req = ask_loop n C (hist @ [req]) req"
    by (rule ask_loop_Pass)
  with Suc.IH [of "hist @ [req]"] show ?case
    by (simp add: replicate_app_Cons_same)
qed

text \<open>
  Claim C3 does not hold of the code. A reply that is valid JSON but not an object, such
  as the bare string \<^verbatim>\<open>"no"\<close>, is decoded by \<^verbatim>\<open>json.loads\<close>; unpacking the result
  with \<^verbatim>\<open>**\<close> raises \<^verbatim>\<open>TypeError\<close>, which the loop does not catch. The reply fails
  the fast path, it has no brace-delimited part, and \<open>ask_identity_ai\<close> raises at the
  first attempt, also when a later reply would have validated.
\<close>

theorem ask_identity_ai_raises_TypeError:
  \<open>json_loads (lit ''"no"'') = Some (JStr (lit ''no'')) \<and>
   load_answer (lit ''"no"'') = Inl TypeError \<and>
   JSON_RE_search (lit ''"no"'') = None \<and>
   fst (ask_identity_ai (scripted [lit ''"no"'', lit ''"no"'', lit ''"no"'']) []
          (lit ''Are you alive today?'') (lit ''Albert Einstein'') 3 (2 / 10)) = Raised TypeError \<and>
   fst (ask_identity_ai (scripted [lit ''"no"'', reply_text ''no'' ''true'' ''false'']) []
          (lit ''Are you alive today?'') (lit ''Albert Einstein'') 3 (2 / 10)) = Raised TypeError\<close>
proof -
  have j: \<open>json_loads (lit ''"no"'') = Some (JStr (lit ''no''))\<close> by code_simp
  have l: \<open>load_answer (lit ''"no"'') = Inl TypeError\<close> by code_simp
  have s: \<open>JSON_RE_search (lit ''"no"'') = None\<close> by code_simp
  have st: \<open>strip (lit ''"no"'') = lit ''"no"''\<close>
    by (simp add: strip_def lit_def isspace_def)
  have a: \<open>attempt (lit ''"no"'') = Raise TypeError\<close> by code_simp
  have r1: \<open>fst (ask_identity_ai (scripted [lit ''"no"'', lit ''"no"'', lit ''"no"'']) []
          (lit ''Are you alive today?'') (lit ''Albert Einstein'') 3 (2 / 10)) = Raised TypeError\<close>
    by (rule ask_scripted_Raise) (simp add: st a)
  have r2: \<open>fst (ask_identity_ai (scripted [lit ''"no"'', reply_text ''no'' ''true'' ''false'']) []
          (lit ''Are you alive today?'') (lit ''Albert Einstein'') 3 (2 / 10)) = Raised TypeError\<close>
    by (rule ask_scripted_Raise) (simp add: st a)
  from j l s r1 r2 show ?thesis by blast
qed

end
